theory Spec2Isabelle
  imports Complex_Main "HOL-Library.Word"
begin

section \<open>JavaScript values\<close>

text \<open>
  The client of \<^verbatim>\<open>src/src/index.js\<close> handles plain JavaScript data: option bags, wait
  actions, JSON bodies and progress events. They are modelled by one datatype. An object
  is the list of its own properties in insertion order, which is the order
  \<^verbatim>\<open>JSON.stringify\<close> writes them in. A number is a rational (every finite double is
  one), NaN, or an infinity with its sign (\<open>True\<close> for the positive one); the two zeros
  are not told apart. The model does no arithmetic of its own on them beyond counting
  attempts: JavaScript's \<^verbatim>\<open>*\<close> is a capability of the runtime, see below.
\<close>

datatype jsval =
    JUndefined
  | JNull
  | JBool bool
  | JNum rat
  | JNaN
  | JInfinity bool
  | JStr string
  | JArr "jsval list"
  | JObj "(string \<times> jsval) list"

type_synonym props = "(string \<times> jsval) list"

text \<open>ToBoolean, as used by \<^verbatim>\<open>if (x)\<close>, \<^verbatim>\<open>x ? a : b\<close> and \<^verbatim>\<open>x || y\<close>.\<close>

fun truthy :: "jsval \<Rightarrow> bool" where
  "truthy JUndefined = False"
| "truthy JNull = False"
| "truthy (JBool b) = b"
| "truthy (JNum n) = (n \<noteq> 0)"
| "truthy JNaN = False"
| "truthy (JInfinity positive) = True"
| "truthy (JStr s) = (s \<noteq> [])"
| "truthy (JArr xs) = True"
| "truthy (JObj ps) = True"

text \<open>\<^verbatim>\<open>a || b\<close>\<close>

definition js_or :: "jsval \<Rightarrow> jsval \<Rightarrow> jsval" where
  "js_or a b = (if truthy a then a else b)"

text \<open>
  \<^verbatim>\<open>v.k\<close> for a value \<open>v\<close> that is neither null nor undefined (reading a property of
  those throws; every caller below tests for them first). None of the property names
  this program reads exists on a primitive or on an array, so only objects answer with
  something other than undefined.
\<close>

fun js_get :: "jsval \<Rightarrow> string \<Rightarrow> jsval" where
  "js_get (JObj ps) k = (case map_of ps k of None \<Rightarrow> JUndefined | Some v \<Rightarrow> v)"
| "js_get v k = JUndefined"

text \<open>
  \<^verbatim>\<open>obj.k = v\<close>: an existing own property keeps its place and takes the new value, a new
  one goes to the end.
\<close>

fun assign :: "string \<Rightarrow> jsval \<Rightarrow> props \<Rightarrow> props" where
  "assign k v [] = [(k, v)]"
| "assign k v ((k', v') # ps) =
     (if k = k' then (k, v) # ps else (k', v') # assign k v ps)"

text \<open>
  The program assigns properties only to values that are objects (the object literals it
  builds, and a parsed body whose \<^verbatim>\<open>html\<close> or \<^verbatim>\<open>fetchResponses\<close> was truthy); the second
  equation is never reached by it.
\<close>

fun js_set :: "jsval \<Rightarrow> string \<Rightarrow> jsval \<Rightarrow> jsval" where
  "js_set (JObj ps) k v = JObj (assign k v ps)"
| "js_set w k v = w"

definition nullish :: "jsval \<Rightarrow> bool" where
  "nullish v \<longleftrightarrow> v = JNull \<or> v = JUndefined"

text \<open>A parameter with a default value: the default replaces \<^verbatim>\<open>undefined\<close> only.\<close>

definition default_to :: "jsval \<Rightarrow> jsval \<Rightarrow> jsval" where
  "default_to d v = (if v = JUndefined then d else v)"

section \<open>Wait-action builder\<close>

text \<open>
  \<^verbatim>\<open>
  static waitForText(text, selector, timeout = 30000) {
    const action = { type: 'text', text, timeout };
    if (selector) { action.selector = selector; }
    return action;
  }
  \<close>
  A call that leaves an argument out passes \<^verbatim>\<open>undefined\<close> for it.
\<close>

definition waitForText :: "jsval \<Rightarrow> jsval \<Rightarrow> jsval \<Rightarrow> jsval" where
  "waitForText text selector timeout0 =
     (let timeout = default_to (JNum 30000) timeout0;
          action = JObj [(''type'', JStr ''text''), (''text'', text), (''timeout'', timeout)]
      in if truthy selector then js_set action ''selector'' selector else action)"

section \<open>Option/payload mapper\<close>

text \<open>
  \<^verbatim>\<open>if (options.k !== undefined) payload.k = options.k;\<close> --- one such line per key in
  \<^verbatim>\<open>createRender\<close>, in the order of \<open>option_keys\<close>.
\<close>

definition copy_if_defined :: "jsval \<Rightarrow> string \<Rightarrow> props \<Rightarrow> props" where
  "copy_if_defined options k payload =
     (if js_get options k \<noteq> JUndefined then assign k (js_get options k) payload else payload)"

definition option_keys :: "string list" where
  "option_keys =
     [''countryCode'', ''city'', ''fetchUrls'', ''waitFor'', ''captcha'', ''blockImages'',
      ''includeScreenshot'', ''screenshotFormat'', ''screenshotQuality'',
      ''screenshotFullPage'']"

definition build_payload :: "jsval \<Rightarrow> jsval \<Rightarrow> props" where
  "build_payload url options =
     (copy_if_defined options ''screenshotFullPage''
      (copy_if_defined options ''screenshotQuality''
      (copy_if_defined options ''screenshotFormat''
      (copy_if_defined options ''includeScreenshot''
      (copy_if_defined options ''blockImages''
      (copy_if_defined options ''captcha''
      (copy_if_defined options ''waitFor''
      (copy_if_defined options ''fetchUrls''
      (copy_if_defined options ''city''
      (copy_if_defined options ''countryCode''
        [(''url'', url)]))))))))))"

section \<open>Transport boundary and runtime capabilities\<close>

text \<open>
  The client object: the two fields its constructor sets, which \<^verbatim>\<open>createRender\<close> and
  \<^verbatim>\<open>getRender\<close> read again at every call (\<^verbatim>\<open>this.baseUrl\<close> for the URL, \<^verbatim>\<open>this.apiKey\<close> for
  the Authorization header). They are ordinary writable properties, so code that holds
  the client, such as a progress callback, can assign to them.
\<close>

record client =
  apiKey :: jsval
  baseUrl :: jsval

text \<open>
  What \<^verbatim>\<open>fetch\<close> can do to the two calls: reject (connection failure, with the cause's
  message), answer with a status that is not ok (status code and body text), answer ok
  with a body that is not JSON, or answer ok with a JSON value. The text of a URL is not
  built; a request is named by its endpoint, with the base URL it goes to.
\<close>

datatype reply =
    NetworkFailure string
  | NotOk nat string
  | BadBody
  | OkJson jsval

datatype endpoint = Renders jsval | RenderStatus jsval jsval

text \<open>
  Everything \<^verbatim>\<open>render\<close> can throw. \<open>RenderFailed m\<close> is
  \<^verbatim>\<open>new Error(`Render failed: ${m}`)\<close> and \<open>RenderTimeout n\<close> is
  \<^verbatim>\<open>new Error(`Render timed out after ${n} attempts`)\<close>: the value interpolated into the
  message is kept instead of the text. \<open>Thrown x\<close> is a value thrown by the caller's
  progress callback.
\<close>

datatype error =
    ConnectionError endpoint string
  | HttpError endpoint nat string
  | SyntaxError
  | TypeError
  | RenderFailed jsval
  | RenderTimeout nat
  | Thrown jsval

text \<open>
  What a run does, in order:
  \<^item> \<open>CreateRender c payload\<close>: the POST to \<^verbatim>\<open>/renders\<close>, sent with the configuration \<open>c\<close>
    the client has at that moment;
  \<^item> \<open>GetRender c renderId\<close>: the GET of \<^verbatim>\<open>/renders/{renderId}\<close>, likewise;
  \<^item> \<open>Progress c ev\<close>: \<^verbatim>\<open>onProgress(ev)\<close> is called; \<open>c\<close> is the client's configuration at
    the moment of the call;
  \<^item> \<open>SetTimeout ms\<close>: \<^verbatim>\<open>await new Promise(resolve => setTimeout(resolve, ms))\<close>, with
    the delay that is asked for (not the time that then passes).
\<close>

datatype effect =
    CreateRender client props
  | GetRender client jsval
  | Progress client jsval
  | SetTimeout jsval

type_synonym byte = "8 word"

text \<open>
  What the program takes from Node and from the language, as parameters (none of it
  belongs to this repository). \<open>None\<close> is a throw or a rejected promise.
  \<^item> \<open>buffer_from_base64 v\<close>: \<^verbatim>\<open>Buffer.from(v, 'base64')\<close>
  \<^item> \<open>gunzip b\<close>: \<^verbatim>\<open>await promisify(zlib.gunzip)(b)\<close>
  \<^item> \<open>to_utf8_string b\<close>: \<^verbatim>\<open>b.toString('utf-8')\<close>, which never throws
  \<^item> \<open>json_parse s\<close>: \<^verbatim>\<open>JSON.parse(s)\<close>
  \<^item> \<open>times a b\<close>: \<^verbatim>\<open>a * b\<close>, with the coercion of the operands to numbers and the
    rounding of the product to a double
\<close>

record runtime =
  buffer_from_base64 :: "jsval \<Rightarrow> byte list option"
  gunzip :: "byte list \<Rightarrow> byte list option"
  to_utf8_string :: "byte list \<Rightarrow> string"
  json_parse :: "string \<Rightarrow> jsval option"
  times :: "jsval \<Rightarrow> jsval \<Rightarrow> jsval"

text \<open>
  The world outside one \<^verbatim>\<open>render\<close> call: what the server answers to the submission, what
  it answers to the \<open>n\<close>-th status request for a render id (counted from 0), and what the
  \<open>k\<close>-th reading of the clock (\<^verbatim>\<open>new Date().toISOString()\<close>) gives. The answers are
  those the run gets, request by request.
\<close>

record world =
  post_renders :: "props \<Rightarrow> reply"
  get_renders :: "jsval \<Rightarrow> nat \<Rightarrow> reply"
  clock :: "nat \<Rightarrow> string"

section \<open>createRender\<close>

text \<open>
  \<^verbatim>\<open>async createRender(url, options = {})\<close>. Reading \<^verbatim>\<open>options.countryCode\<close> of
  \<^verbatim>\<open>null\<close> throws a TypeError before anything is sent.
\<close>

definition createRender ::
  "world \<Rightarrow> client \<Rightarrow> jsval \<Rightarrow> jsval \<Rightarrow> effect list \<times> (error + jsval)" where
  "createRender w this url options0 =
     (let options = default_to (JObj []) options0 in
      if options = JNull then ([], Inl TypeError)
      else
        let payload = build_payload url options in
        ([CreateRender this payload],
         case post_renders w payload of
           NetworkFailure msg \<Rightarrow> Inl (ConnectionError (Renders (baseUrl this)) msg)
         | NotOk status body \<Rightarrow> Inl (HttpError (Renders (baseUrl this)) status body)
         | BadBody \<Rightarrow> Inl SyntaxError
         | OkJson v \<Rightarrow> Inr v))"

section \<open>Payload decoder and getRender\<close>

text \<open>
  The body of the first \<^verbatim>\<open>try\<close> block of \<^verbatim>\<open>getRender\<close>: the new value of
  \<^verbatim>\<open>result.html\<close>, or \<open>None\<close> when a step throws.
\<close>

definition try_html :: "runtime \<Rightarrow> jsval \<Rightarrow> jsval option" where
  "try_html rt html =
     (case buffer_from_base64 rt html of
        None \<Rightarrow> None
      | Some buffer \<Rightarrow>
          (case gunzip rt buffer of
             None \<Rightarrow> None
           | Some decompressed \<Rightarrow> Some (JStr (to_utf8_string rt decompressed))))"

text \<open>The body of the second \<^verbatim>\<open>try\<close> block.\<close>

definition try_fetchResponses :: "runtime \<Rightarrow> jsval \<Rightarrow> jsval option" where
  "try_fetchResponses rt fr =
     (case buffer_from_base64 rt fr of
        None \<Rightarrow> None
      | Some buffer \<Rightarrow>
          (case gunzip rt buffer of
             None \<Rightarrow> None
           | Some decompressed \<Rightarrow> json_parse rt (to_utf8_string rt decompressed)))"

text \<open>
  \<^verbatim>\<open>if (result.html) { try { ...; result.html = ... } catch (error) { } }\<close>
\<close>

definition decompress_html :: "runtime \<Rightarrow> jsval \<Rightarrow> jsval" where
  "decompress_html rt result =
     (if truthy (js_get result ''html'') then
        (case try_html rt (js_get result ''html'') of
           None \<Rightarrow> result
         | Some v \<Rightarrow> js_set result ''html'' v)
      else result)"

definition decompress_fetchResponses :: "runtime \<Rightarrow> jsval \<Rightarrow> jsval" where
  "decompress_fetchResponses rt result =
     (if truthy (js_get result ''fetchResponses'') then
        (case try_fetchResponses rt (js_get result ''fetchResponses'') of
           None \<Rightarrow> result
         | Some v \<Rightarrow> js_set result ''fetchResponses'' v)
      else result)"

text \<open>
  \<^verbatim>\<open>async getRender(renderId)\<close>, for the \<open>n\<close>-th status request. A body that parses to
  \<^verbatim>\<open>null\<close> makes \<^verbatim>\<open>result.html\<close> throw a TypeError outside both \<^verbatim>\<open>try\<close> blocks.
\<close>

definition getRender ::
  "runtime \<Rightarrow> world \<Rightarrow> client \<Rightarrow> jsval \<Rightarrow> nat \<Rightarrow> effect list \<times> (error + jsval)" where
  "getRender rt w this renderId n =
     ([GetRender this renderId],
      case get_renders w renderId n of
        NetworkFailure msg \<Rightarrow> Inl (ConnectionError (RenderStatus (baseUrl this) renderId) msg)
      | NotOk status body \<Rightarrow>
          Inl (HttpError (RenderStatus (baseUrl this) renderId) status body)
      | BadBody \<Rightarrow> Inl SyntaxError
      | OkJson result \<Rightarrow>
          if nullish result then Inl TypeError
          else Inr (decompress_fetchResponses rt (decompress_html rt result)))"

section \<open>Progress events\<close>

type_synonym callback = "jsval \<Rightarrow> client \<Rightarrow> jsval option \<times> client"

text \<open>
  \<^verbatim>\<open>if (onProgress) { onProgress({ ..., timestamp: new Date().toISOString(), ... }); }\<close>
  The callback is a function of the event it is handed and of the client's configuration
  at that moment. It returns (\<open>None\<close>; what it returns is ignored, a promise is not
  awaited) or throws a value (\<open>Some x\<close>), and it leaves the client with a configuration,
  the same or another. A callback that keeps state of its own is covered, since the
  events of one run differ from each other in type or attempt; a callback that never
  returns, or that replaces the client's methods or the globals \<^verbatim>\<open>fetch\<close> and
  \<^verbatim>\<open>setTimeout\<close>, is not. \<open>ticks\<close> counts the readings of the clock so far. The result is
  the effect, the new count, the client after the call, and what the callback threw.
\<close>

definition emit ::
  "world \<Rightarrow> callback option \<Rightarrow> client \<Rightarrow> nat \<Rightarrow> (string \<Rightarrow> jsval)
     \<Rightarrow> effect list \<times> nat \<times> client \<times> jsval option" where
  "emit w onProgress this ticks event =
     (case onProgress of
        None \<Rightarrow> ([], ticks, this, None)
      | Some f \<Rightarrow>
          (let ev = event (clock w ticks) in
           ([Progress this ev], Suc ticks, snd (f ev this), fst (f ev this))))"

definition started_event :: "jsval \<Rightarrow> string \<Rightarrow> jsval" where
  "started_event renderId ts =
     JObj [(''type'', JStr ''started''), (''renderId'', renderId), (''timestamp'', JStr ts)]"

definition polling_event :: "jsval \<Rightarrow> jsval \<Rightarrow> nat \<Rightarrow> string \<Rightarrow> jsval" where
  "polling_event renderId result attempt ts =
     JObj [(''type'', JStr ''polling''), (''renderId'', renderId), (''timestamp'', JStr ts),
           (''status'', js_get result ''status''), (''attempt'', JNum (of_nat attempt + 1)),
           (''retryAfter'', js_get result ''retryAfter'')]"

definition completed_event :: "jsval \<Rightarrow> jsval \<Rightarrow> string \<Rightarrow> jsval" where
  "completed_event renderId result ts =
     JObj [(''type'', JStr ''completed''), (''renderId'', renderId), (''timestamp'', JStr ts),
           (''status'', js_get result ''status'')]"

definition failed_event :: "jsval \<Rightarrow> jsval \<Rightarrow> string \<Rightarrow> jsval" where
  "failed_event renderId result ts =
     JObj [(''type'', JStr ''failed''), (''renderId'', renderId), (''timestamp'', JStr ts),
           (''status'', js_get result ''status'')]"

section \<open>render\<close>

definition maxAttempts :: nat where
  "maxAttempts = 60"

text \<open>\<^verbatim>\<open>const retryAfter = result.retryAfter ? result.retryAfter * 1000 : 1000;\<close>\<close>

definition retry_delay :: "runtime \<Rightarrow> jsval \<Rightarrow> jsval" where
  "retry_delay rt result =
     (if truthy (js_get result ''retryAfter'')
      then times rt (js_get result ''retryAfter'') (JNum 1000)
      else JNum 1000)"

text \<open>
  The polling loop \<^verbatim>\<open>for (let attempt = 0; attempt < maxAttempts; attempt++)\<close> with the
  \<^verbatim>\<open>throw\<close> that follows it. Each round makes exactly one status request, so the round
  number is also the number of the request.
\<close>

function poll ::
  "runtime \<Rightarrow> world \<Rightarrow> callback option \<Rightarrow> client \<Rightarrow> jsval \<Rightarrow> nat \<Rightarrow> nat
     \<Rightarrow> effect list \<times> (error + jsval)"
  where
  "poll rt w onProgress this renderId attempt ticks =
     (if attempt < maxAttempts then
        (case getRender rt w this renderId attempt of
           (gx, Inl e) \<Rightarrow> (gx, Inl e)
         | (gx, Inr result) \<Rightarrow>
             (case emit w onProgress this ticks (polling_event renderId result attempt) of
                (px, ticks1, this1, Some x) \<Rightarrow> (gx @ px, Inl (Thrown x))
              | (px, ticks1, this1, None) \<Rightarrow>
                  if js_get result ''status'' = JStr ''completed'' then
                    (case emit w onProgress this1 ticks1 (completed_event renderId result) of
                       (cx, ticks2, this2, Some x) \<Rightarrow> (gx @ px @ cx, Inl (Thrown x))
                     | (cx, ticks2, this2, None) \<Rightarrow> (gx @ px @ cx, Inr result))
                  else if js_get result ''status'' = JStr ''failed'' then
                    (case emit w onProgress this1 ticks1 (failed_event renderId result) of
                       (fx, ticks2, this2, Some x) \<Rightarrow> (gx @ px @ fx, Inl (Thrown x))
                     | (fx, ticks2, this2, None) \<Rightarrow>
                         (gx @ px @ fx,
                          Inl (RenderFailed
                                 (js_or (js_get result ''error'') (JStr ''Unknown error'')))))
                  else
                    (case poll rt w onProgress this1 renderId (attempt + 1) ticks1 of
                       (rest, out) \<Rightarrow>
                         (gx @ px @ [SetTimeout (retry_delay rt result)] @ rest, out))))
      else ([], Inl (RenderTimeout maxAttempts)))"
  by pat_completeness auto
termination
  by (relation
        "measure (\<lambda>(rt, w, onProgress, this, renderId, attempt, ticks). maxAttempts - attempt)")
     auto

text \<open>
  \<^verbatim>\<open>async render(url, options = {}, onProgress)\<close>. Destructuring \<^verbatim>\<open>{ renderId }\<close> from a
  body that parsed to \<^verbatim>\<open>null\<close> throws a TypeError.
\<close>

definition render ::
  "runtime \<Rightarrow> world \<Rightarrow> client \<Rightarrow> jsval \<Rightarrow> jsval \<Rightarrow> callback option
     \<Rightarrow> effect list \<times> (error + jsval)"
  where
  "render rt w this url options0 onProgress =
     (let options = default_to (JObj []) options0 in
      case createRender w this url options of
        (cx, Inl e) \<Rightarrow> (cx, Inl e)
      | (cx, Inr response) \<Rightarrow>
          if nullish response then (cx, Inl TypeError)
          else
            let renderId = js_get response ''renderId'' in
            (case emit w onProgress this 0 (started_event renderId) of
               (sx, ticks, this1, Some x) \<Rightarrow> (cx @ sx, Inl (Thrown x))
             | (sx, ticks, this1, None) \<Rightarrow>
                 (case poll rt w onProgress this1 renderId 0 ticks of
                    (rest, out) \<Rightarrow> (cx @ sx @ [SetTimeout (JNum 2000)] @ rest, out))))"

section \<open>Observing a run\<close>

text \<open>
  A run of \<^verbatim>\<open>render\<close> is the list of its effects in the order they happened, and how
  it ended. The functions below read a run.
\<close>

fun events_of :: "effect list \<Rightarrow> jsval list" where
  "events_of [] = []"
| "events_of (Progress c ev # xs) = ev # events_of xs"
| "events_of (x # xs) = events_of xs"

text \<open>The transport calls and the delays: every effect but the progress events.\<close>

fun actions :: "effect list \<Rightarrow> effect list" where
  "actions [] = []"
| "actions (Progress c ev # xs) = actions xs"
| "actions (x # xs) = x # actions xs"

fun fetch_count :: "effect list \<Rightarrow> nat" where
  "fetch_count [] = 0"
| "fetch_count (GetRender c r # xs) = Suc (fetch_count xs)"
| "fetch_count (x # xs) = fetch_count xs"

text \<open>\<^verbatim>\<open>Object.keys(v)\<close> of an object.\<close>

fun own_keys :: "jsval \<Rightarrow> string list" where
  "own_keys (JObj ps) = map fst ps"
| "own_keys v = []"

definition event_type :: "jsval \<Rightarrow> jsval" where
  "event_type ev = js_get ev ''type''"

definition event_attempt :: "jsval \<Rightarrow> jsval" where
  "event_attempt ev = js_get ev ''attempt''"

text \<open>What an event is, as far as its place in the order goes: its type and attempt.\<close>

definition event_summary :: "jsval \<Rightarrow> jsval \<times> jsval" where
  "event_summary ev = (event_type ev, event_attempt ev)"


definition polling_events :: "effect list \<Rightarrow> jsval list" where
  "polling_events tr = filter (\<lambda>ev. event_type ev = JStr ''polling'') (events_of tr)"



definition non_terminal :: "jsval \<Rightarrow> bool" where
  "non_terminal result \<longleftrightarrow>
     js_get result ''status'' \<noteq> JStr ''completed'' \<and> js_get result ''status'' \<noteq> JStr ''failed''"

text \<open>
  A callback that returns from every call, whatever it does to the client; no callback
  at all counts.
\<close>

fun returns_normally :: "callback option \<Rightarrow> bool" where
  "returns_normally None = True"
| "returns_normally (Some f) = (\<forall>ev c. fst (f ev c) = None)"


text \<open>The \<^verbatim>\<open>started\<close> event of a run, if there is a callback to hand it to.\<close>

fun started_part :: "world \<Rightarrow> callback option \<Rightarrow> client \<Rightarrow> jsval \<Rightarrow> effect list" where
  "started_part w None c renderId = []"
| "started_part w (Some f) c renderId = [Progress c (started_event renderId (clock w 0))]"


text \<open>
  What the claims call a failing decode chain, step by step: \<^verbatim>\<open>Buffer.from\<close> throws, or
  \<^verbatim>\<open>gunzip\<close> rejects, or (for \<^verbatim>\<open>fetchResponses\<close>) \<^verbatim>\<open>JSON.parse\<close> throws.
\<close>

definition html_chain_fails :: "runtime \<Rightarrow> jsval \<Rightarrow> bool" where
  "html_chain_fails rt v \<longleftrightarrow>
     buffer_from_base64 rt v = None
     \<or> (\<exists>b. buffer_from_base64 rt v = Some b \<and> gunzip rt b = None)"

definition fetchResponses_chain_fails :: "runtime \<Rightarrow> jsval \<Rightarrow> bool" where
  "fetchResponses_chain_fails rt v \<longleftrightarrow>
     buffer_from_base64 rt v = None
     \<or> (\<exists>b. buffer_from_base64 rt v = Some b \<and> gunzip rt b = None)
     \<or> (\<exists>b u. buffer_from_base64 rt v = Some b \<and> gunzip rt b = Some u
            \<and> json_parse rt (to_utf8_string rt u) = None)"

text \<open>
  The sending side, which is the server's: UTF-8 encoding, gzip and base64. A runtime
  decodes an encoder when its three functions undo the encoder's. A gzip stream is never
  empty (it has a header), and neither is its base64 text.
\<close>

record encoder =
  utf8 :: "string \<Rightarrow> byte list"
  gzip :: "byte list \<Rightarrow> byte list"
  base64 :: "byte list \<Rightarrow> string"

definition decodes :: "runtime \<Rightarrow> encoder \<Rightarrow> bool" where
  "decodes rt en \<longleftrightarrow>
     (\<forall>b. buffer_from_base64 rt (JStr (base64 en b)) = Some b)
     \<and> (\<forall>b. gunzip rt (gzip en b) = Some b)
     \<and> (\<forall>s. to_utf8_string rt (utf8 en s) = s)
     \<and> (\<forall>b. base64 en (gzip en b) \<noteq> [])"

definition wire :: "encoder \<Rightarrow> string \<Rightarrow> jsval" where
  "wire en s = JStr (base64 en (gzip en (utf8 en s)))"

section \<open>Concrete runs\<close>

text \<open>
  A small stand-in for Node's codecs, to run the model on concrete inputs: bytes and
  characters correspond one to one, a ``gzip stream'' is the two magic bytes followed by
  the data, and the only JSON text is the empty array. Its product is the exact one on
  two numbers and NaN on anything else.
\<close>

definition example_encoder :: encoder where
  "example_encoder =
     \<lparr> utf8 = map (\<lambda>c. word_of_nat (of_char c)),
       gzip = (\<lambda>b. 0x1f # 0x8b # b),
       base64 = map (\<lambda>x. char_of (unat x)) \<rparr>"

definition example_runtime :: runtime where
  "example_runtime =
     \<lparr> buffer_from_base64 =
         (\<lambda>v. case v of JStr s \<Rightarrow> Some (map (\<lambda>c. word_of_nat (of_char c)) s) | _ \<Rightarrow> None),
       gunzip =
         (\<lambda>b. case b of
                x # y # rest \<Rightarrow> if x = 0x1f \<and> y = 0x8b then Some rest else None
              | _ \<Rightarrow> None),
       to_utf8_string = map (\<lambda>x. char_of (unat x)),
       json_parse = (\<lambda>s. if s = ''[]'' then Some (JArr []) else None),
       times = (\<lambda>a b. case a of
                        JNum x \<Rightarrow> (case b of JNum y \<Rightarrow> JNum (x * y) | _ \<Rightarrow> JNaN)
                      | _ \<Rightarrow> JNaN) \<rparr>"

definition example_client :: client where
  "example_client =
     \<lparr> apiKey = JStr ''b7_example'', baseUrl = JStr ''https://api.browser7.com/v1'' \<rparr>"

definition processing :: jsval where
  "processing = JObj [(''status'', JStr ''processing''), (''retryAfter'', JNum 1)]"

definition completed :: jsval where
  "completed =
     JObj [(''status'', JStr ''completed''),
           (''html'', wire example_encoder ''<html></html>''),
           (''fetchResponses'', wire example_encoder ''[]''),
           (''loadStrategy'', JStr ''default'')]"

definition blocked :: jsval where
  "blocked = JObj [(''status'', JStr ''failed''), (''error'', JStr ''blocked'')]"

definition accepted :: reply where
  "accepted = OkJson (JObj [(''renderId'', JStr ''r1'')])"

text \<open>The server answers processing, processing, completed.\<close>

definition scenario_world :: world where
  "scenario_world =
     \<lparr> post_renders = (\<lambda>payload. accepted),
       get_renders = (\<lambda>renderId n. if n < 2 then OkJson processing else OkJson completed),
       clock = (\<lambda>k. ''2026-01-01T00:00:00.000Z'') \<rparr>"

text \<open>The server answers processing for ever.\<close>

definition stuck_world :: world where
  "stuck_world =
     \<lparr> post_renders = (\<lambda>payload. accepted),
       get_renders = (\<lambda>renderId n. OkJson processing),
       clock = (\<lambda>k. ''2026-01-01T00:00:00.000Z'') \<rparr>"

text \<open>The server answers failed, with the error ``blocked'', to the first status request.\<close>

definition blocked_world :: world where
  "blocked_world =
     \<lparr> post_renders = (\<lambda>payload. accepted),
       get_renders = (\<lambda>renderId n. OkJson blocked),
       clock = (\<lambda>k. ''2026-01-01T00:00:00.000Z'') \<rparr>"

text \<open>
  The server answers completed with both fields already plain: neither is a gzip stream,
  and the second is not JSON either.
\<close>

definition plain :: jsval where
  "plain =
     JObj [(''status'', JStr ''completed''),
           (''html'', JStr ''<p>plain</p>''),
           (''fetchResponses'', JStr ''not json''),
           (''error'', JNull)]"

definition plain_world :: world where
  "plain_world =
     \<lparr> post_renders = (\<lambda>payload. accepted),
       get_renders = (\<lambda>renderId n. OkJson plain),
       clock = (\<lambda>k. ''2026-01-01T00:00:00.000Z'') \<rparr>"

text \<open>
  Callbacks: one that only returns, two that throw at one kind of event, and one that
  returns but points the client at another base URL.
\<close>

definition quiet :: callback where
  "quiet ev c = (None, c)"

definition throws_on :: "string \<Rightarrow> callback" where
  "throws_on ty ev c = (if event_type ev = JStr ty then Some (JStr ''boom'') else None, c)"

definition throws_at_attempt :: "rat \<Rightarrow> callback" where
  "throws_at_attempt i ev c =
     (if event_attempt ev = JNum i then Some (JStr ''boom'') else None, c)"


definition example_url :: jsval where
  "example_url = JStr ''https://example.com''"

definition example_options :: jsval where
  "example_options = JObj [(''countryCode'', JStr ''US''), (''includeScreenshot'', JBool True)]"

section \<open>Facts about the model\<close>

declare poll.simps [simp del]

lemma emit_Some [simp]:
  "emit w (Some f) c t mk
     = ([Progress c (mk (clock w t))], Suc t, snd (f (mk (clock w t)) c),
        fst (f (mk (clock w t)) c))"
  by (simp add: emit_def Let_def)

lemma emit_None [simp]: "emit w None c t mk = ([], t, c, None)"
  by (simp add: emit_def)

lemma getRender_fst [simp]: "fst (getRender rt w c rid n) = [GetRender c rid]"
  by (simp add: getRender_def)

lemma getRender_Inr_client:
  "snd (getRender rt w c rid n) = Inr result \<Longrightarrow> snd (getRender rt w c' rid n) = Inr result"
  by (auto simp add: getRender_def split: reply.splits if_splits)

lemma events_of_append [simp]: "events_of (xs @ ys) = events_of xs @ events_of ys"
  by (induction xs rule: events_of.induct) auto

lemma actions_append [simp]: "actions (xs @ ys) = actions xs @ actions ys"
  by (induction xs rule: actions.induct) auto

lemma fetch_count_append [simp]: "fetch_count (xs @ ys) = fetch_count xs + fetch_count ys"
  by (induction xs rule: fetch_count.induct) auto


lemma polling_event_type [simp]:
  "event_type (polling_event rid result a ts) = JStr ''polling''"
  by (simp add: event_type_def polling_event_def)

lemma emit_quiet:
  "returns_normally cb \<Longrightarrow>
   emit w cb c t mk =
     ((case cb of None \<Rightarrow> [] | Some f \<Rightarrow> [Progress c (mk (clock w t))]),
      (case cb of None \<Rightarrow> t | Some f \<Rightarrow> Suc t),
      (case cb of None \<Rightarrow> c | Some f \<Rightarrow> snd (f (mk (clock w t)) c)),
      None)"
  by (cases cb) (simp_all add: emit_def Let_def)

lemma poll_exhausts:
  assumes "returns_normally cb"
    and "\<forall>n. a \<le> n \<and> n < maxAttempts \<longrightarrow>
           (\<exists>result. snd (getRender rt w c0 rid n) = Inr result \<and> non_terminal result)"
  shows "snd (poll rt w cb c rid a t) = Inl (RenderTimeout maxAttempts)
       \<and> fetch_count (fst (poll rt w cb c rid a t)) = maxAttempts - a
       \<and> length (polling_events (fst (poll rt w cb c rid a t)))
           = (if cb = None then 0 else maxAttempts - a)"
  using assms
proof (induction rt w cb c rid a t rule: poll.induct)
  case (1 rt w cb c rid a t)
  show ?case
  proof (cases "a < maxAttempts")
    case False
    then show ?thesis
      by (simp add: poll.simps [of rt w cb c rid a t] polling_events_def)
  next
    case lt: True
    with "1.prems"(2) obtain result where
      res0: "snd (getRender rt w c0 rid a) = Inr result" and nt: "non_terminal result"
      by auto
    have res: "snd (getRender rt w c rid a) = Inr result"
      using getRender_Inr_client [OF res0] .
    have g: "getRender rt w c rid a = ([GetRender c rid], Inr result)"
      using res getRender_fst [of rt w c rid a] by (cases "getRender rt w c rid a") simp
    note e = emit_quiet [OF "1.prems"(1), of w c t "polling_event rid result a"]
    let ?px = "case cb of None \<Rightarrow> []
               | Some f \<Rightarrow> [Progress c (polling_event rid result a (clock w t))]"
    let ?t1 = "case cb of None \<Rightarrow> t | Some f \<Rightarrow> Suc t"
    let ?c1 = "case cb of None \<Rightarrow> c
               | Some f \<Rightarrow> snd (f (polling_event rid result a (clock w t)) c)"
    have nc: "js_get result ''status'' \<noteq> JStr ''completed''"
      and nf: "js_get result ''status'' \<noteq> JStr ''failed''"
      using nt by (simp_all add: non_terminal_def)
    have later: "\<forall>n. a + 1 \<le> n \<and> n < maxAttempts \<longrightarrow>
           (\<exists>result. snd (getRender rt w c0 rid n) = Inr result \<and> non_terminal result)"
      using "1.prems"(2) by auto
    note ih = "1.IH" [OF lt g [symmetric] refl e [symmetric] refl refl refl nc nf
                        "1.prems"(1) later]
    obtain rest out' where r: "poll rt w cb ?c1 rid (a + 1) ?t1 = (rest, out')"
      by (cases "poll rt w cb ?c1 rid (a + 1) ?t1")
    have unfold: "poll rt w cb c rid a t
                    = ([GetRender c rid] @ ?px @ [SetTimeout (retry_delay rt result)] @ rest, out')"
      using lt g e nc nf r by (simp add: poll.simps [of rt w cb c rid a t])
    show ?thesis unfolding unfold using ih r lt
      by (cases cb) (auto simp add: polling_events_def)
  qed
qed

lemma poll_failed:
  assumes "poll rt w cb c rid a t = (tr, out)"
    and "returns_normally cb"
    and "a \<le> n" and "n < a + fetch_count tr"
    and "snd (getRender rt w c0 rid n) = Inr result"
    and "js_get result ''status'' = JStr ''failed''"
  shows "out = Inl (RenderFailed (js_or (js_get result ''error'') (JStr ''Unknown error'')))
       \<and> (cb \<noteq> None \<longrightarrow>
            events_of tr \<noteq> [] \<and> (\<exists>ts. last (events_of tr) = failed_event rid result ts))"
  using assms
proof (induction rt w cb c rid a t arbitrary: tr out rule: poll.induct)
  case (1 rt w cb c rid a t)
  note run = "1.prems"(1) and quiet = "1.prems"(2)
  show ?case
  proof (cases "a < maxAttempts")
    case False
    with run "1.prems"(3,4) show ?thesis
      by (auto simp add: poll.simps [of rt w cb c rid a t])
  next
    case lt: True
    obtain g where g: "getRender rt w c rid a = ([GetRender c rid], g)"
      using getRender_fst [of rt w c rid a] by (cases "getRender rt w c rid a") simp
    have here: "g = Inr result" if "n = a"
      using getRender_Inr_client [OF "1.prems"(5), of c] g that by simp
    show ?thesis
    proof (cases g)
      case (Inl e)
      with run lt g have "tr = [GetRender c rid]"
        by (auto simp add: poll.simps [of rt w cb c rid a t])
      with "1.prems"(3,4) have "n = a" by simp
      with here Inl show ?thesis by simp
    next
      case (Inr r)
      note e = emit_quiet [OF quiet, of w c t "polling_event rid r a"]
      show ?thesis
      proof (cases "js_get r ''status'' = JStr ''completed''")
        case True
        with run lt g Inr have "fetch_count tr = 1"
          by (auto simp add: poll.simps [of rt w cb c rid a t] emit_quiet [OF quiet]
                split: option.splits)
        with "1.prems"(3,4) have "n = a" by simp
        with here "1.prems"(6) Inr True show ?thesis by simp
      next
        case nc: False
        show ?thesis
        proof (cases "js_get r ''status'' = JStr ''failed''")
          case True
          with run lt g Inr nc have "fetch_count tr = 1"
            by (auto simp add: poll.simps [of rt w cb c rid a t] emit_quiet [OF quiet]
                  split: option.splits)
          with "1.prems"(3,4) have "n = a" by simp
          with here Inr have rr: "result = r" by simp
          from run lt g Inr nc True show ?thesis unfolding rr
            by (auto simp add: poll.simps [of rt w cb c rid a t] emit_quiet [OF quiet]
                  split: option.splits)
        next
          case nf: False
          let ?t1 = "case cb of None \<Rightarrow> t | Some f \<Rightarrow> Suc t"
          let ?c1 = "case cb of None \<Rightarrow> c
                     | Some f \<Rightarrow> snd (f (polling_event rid r a (clock w t)) c)"
          obtain rest out' where r: "poll rt w cb ?c1 rid (a + 1) ?t1 = (rest, out')"
            by (cases "poll rt w cb ?c1 rid (a + 1) ?t1")
          from run lt g Inr e nc nf r
          have tr: "tr = [GetRender c rid]
                       @ (case cb of None \<Rightarrow> []
                          | Some f \<Rightarrow> [Progress c (polling_event rid r a (clock w t))])
                       @ [SetTimeout (retry_delay rt r)] @ rest"
            and out: "out = out'"
            by (simp_all add: poll.simps [of rt w cb c rid a t])
          have fc: "fetch_count tr = Suc (fetch_count rest)"
            by (cases cb) (simp_all add: tr)
          have "n \<noteq> a"
            using here "1.prems"(6) Inr nf by auto
          with "1.prems"(3,4) fc have n1: "a + 1 \<le> n" and n2: "n < a + 1 + fetch_count rest"
            by simp_all
          note ih = "1.IH" [OF lt g [symmetric] Inr e [symmetric] refl refl refl nc nf r quiet
                            n1 n2 "1.prems"(5,6)]
          show ?thesis using ih
            by (cases cb) (auto simp add: tr out)
        qed
      qed
    qed
  qed
qed



lemma fetch_count_emit [simp]: "fetch_count (fst (emit w cb c t mk)) = 0"
  by (cases cb) (simp_all add: emit_def Let_def)

lemma actions_emit [simp]: "actions (fst (emit w cb c t mk)) = []"
  by (cases cb) (simp_all add: emit_def Let_def)





lemma assign_map_of: "map_of (assign k v ps) = (map_of ps)(k \<mapsto> v)"
  by (induction ps) auto

lemma assign_key_set: "set (map fst (assign k v ps)) = insert k (set (map fst ps))"
  using arg_cong [OF assign_map_of, of dom k v ps] by (simp add: dom_map_of_conv_image_fst)

lemma assign_keys_old: "(k, b) \<in> set ps \<Longrightarrow> map fst (assign k v ps) = map fst ps"
  by (induction ps) auto

lemma assign_keys_new: "k \<notin> set (map fst ps) \<Longrightarrow> map fst (assign k v ps) = map fst ps @ [k]"
  by (induction ps) auto

lemma fold_copy_keys:
  "distinct ks \<Longrightarrow> set ks \<inter> set (map fst p) = {} \<Longrightarrow>
   map fst (fold (copy_if_defined opts) ks p)
     = map fst p @ filter (\<lambda>k. js_get opts k \<noteq> JUndefined) ks"
proof (induction ks arbitrary: p)
  case Nil
  then show ?case by simp
next
  case (Cons k ks)
  have new: "k \<notin> set (map fst p)" using Cons.prems(2) by auto
  have disj: "set ks \<inter> set (map fst (copy_if_defined opts k p)) = {}"
    using Cons.prems assign_key_set [of k "js_get opts k" p]
    by (auto simp add: copy_if_defined_def)
  have "distinct ks" using Cons.prems(1) by simp
  from Cons.IH [OF this disj] new show ?case
    by (simp add: copy_if_defined_def assign_keys_new)
qed

lemma fold_copy_map_of:
  "distinct ks \<Longrightarrow>
   map_of (fold (copy_if_defined opts) ks p) k
     = (if k \<in> set ks \<and> js_get opts k \<noteq> JUndefined then Some (js_get opts k) else map_of p k)"
proof (induction ks arbitrary: p)
  case Nil
  then show ?case by simp
next
  case (Cons k' ks)
  then show ?case
    by (auto simp add: copy_if_defined_def assign_map_of)
qed

lemma build_payload_fold:
  "build_payload url opts = fold (copy_if_defined opts) option_keys [(''url'', url)]"
  by (simp add: build_payload_def option_keys_def)

lemma distinct_option_keys: "distinct option_keys"
  by (simp add: option_keys_def)

lemma url_not_option_key: "''url'' \<notin> set option_keys"
  by (simp add: option_keys_def)

lemma js_get_default [simp]: "js_get (default_to (JObj []) opts) k = js_get opts k"
  by (simp add: default_to_def)

lemma createRender_default [simp]:
  "createRender w c url (default_to (JObj []) opts) = createRender w c url opts"
  by (simp add: createRender_def default_to_def)

lemma createRender_fst:
  "fst (createRender w c url opts)
     = (if opts = JNull then [] else [CreateRender c (build_payload url (default_to (JObj []) opts))])"
  by (simp add: createRender_def default_to_def Let_def)

lemma createRender_quiet [simp]:
  "events_of (fst (createRender w c url opts)) = []"
  "fetch_count (fst (createRender w c url opts)) = 0"
  "actions (fst (createRender w c url opts)) = fst (createRender w c url opts)"
  by (simp_all add: createRender_fst)


lemma js_get_set_same: "js_get (js_set (JObj ps) k v) k = v"
  by (simp add: assign_map_of)

lemma js_get_set_other: "k' \<noteq> k \<Longrightarrow> js_get (js_set r k v) k' = js_get r k'"
  by (cases r) (simp_all add: assign_map_of)

lemma truthy_get_obj: "truthy (js_get r k) \<Longrightarrow> \<exists>ps. r = JObj ps \<and> k \<in> set (map fst ps)"
  by (cases r) (auto split: option.splits dest: map_of_SomeD intro: rev_image_eqI)

lemma decompress_html_cases:
  "decompress_html rt r = r
   \<or> (\<exists>ps v. r = JObj ps \<and> ''html'' \<in> set (map fst ps) \<and> truthy (js_get r ''html'')
         \<and> try_html rt (js_get r ''html'') = Some v
         \<and> decompress_html rt r = JObj (assign ''html'' v ps))"
proof (cases "truthy (js_get r ''html'')")
  case False
  then show ?thesis by (simp add: decompress_html_def)
next
  case True
  then obtain ps where "r = JObj ps" "''html'' \<in> set (map fst ps)"
    using truthy_get_obj by blast
  with True show ?thesis
    by (cases "try_html rt (js_get r ''html'')") (simp_all add: decompress_html_def)
qed

lemma decompress_fetchResponses_cases:
  "decompress_fetchResponses rt r = r
   \<or> (\<exists>ps v. r = JObj ps \<and> ''fetchResponses'' \<in> set (map fst ps)
         \<and> truthy (js_get r ''fetchResponses'')
         \<and> try_fetchResponses rt (js_get r ''fetchResponses'') = Some v
         \<and> decompress_fetchResponses rt r = JObj (assign ''fetchResponses'' v ps))"
proof (cases "truthy (js_get r ''fetchResponses'')")
  case False
  then show ?thesis by (simp add: decompress_fetchResponses_def)
next
  case True
  then obtain ps where "r = JObj ps" "''fetchResponses'' \<in> set (map fst ps)"
    using truthy_get_obj by blast
  with True show ?thesis
    by (cases "try_fetchResponses rt (js_get r ''fetchResponses'')")
       (simp_all add: decompress_fetchResponses_def)
qed

lemma try_html_fails: "html_chain_fails rt v \<Longrightarrow> try_html rt v = None"
  by (auto simp add: html_chain_fails_def try_html_def)

lemma try_fetchResponses_fails:
  "fetchResponses_chain_fails rt v \<Longrightarrow> try_fetchResponses rt v = None"
  by (auto simp add: fetchResponses_chain_fails_def try_fetchResponses_def)

lemma js_get_decompress_html_other:
  "k \<noteq> ''html'' \<Longrightarrow> js_get (decompress_html rt r) k = js_get r k"
  by (simp add: decompress_html_def js_get_set_other split: option.splits)

lemma js_get_decompress_fetchResponses_other:
  "k \<noteq> ''fetchResponses'' \<Longrightarrow> js_get (decompress_fetchResponses rt r) k = js_get r k"
  by (simp add: decompress_fetchResponses_def js_get_set_other split: option.splits)

lemma js_get_decompress_html_same:
  assumes "truthy (js_get r ''html'')" and "try_html rt (js_get r ''html'') = Some v"
  shows "js_get (decompress_html rt r) ''html'' = v"
proof -
  obtain ps where "r = JObj ps" using assms(1) truthy_get_obj by blast
  with assms show ?thesis by (simp add: decompress_html_def assign_map_of)
qed

lemma js_get_decompress_fetchResponses_same:
  assumes "truthy (js_get r ''fetchResponses'')"
    and "try_fetchResponses rt (js_get r ''fetchResponses'') = Some v"
  shows "js_get (decompress_fetchResponses rt r) ''fetchResponses'' = v"
proof -
  obtain ps where "r = JObj ps" using assms(1) truthy_get_obj by blast
  with assms show ?thesis by (simp add: decompress_fetchResponses_def assign_map_of)
qed

lemma decompress_html_obj:
  "\<exists>ps'. decompress_html rt (JObj ps) = JObj ps' \<and> map fst ps' = map fst ps
     \<and> (\<forall>k. k \<noteq> ''html'' \<longrightarrow> map_of ps' k = map_of ps k)
     \<and> (map_of ps' ''html'' = map_of ps ''html''
          \<or> (\<exists>v. truthy (js_get (JObj ps) ''html'')
               \<and> try_html rt (js_get (JObj ps) ''html'') = Some v
               \<and> map_of ps' ''html'' = Some v))"
  using decompress_html_cases [of rt "JObj ps"]
  by (auto simp add: assign_map_of assign_keys_old)

lemma decompress_fetchResponses_obj:
  "\<exists>ps'. decompress_fetchResponses rt (JObj ps) = JObj ps' \<and> map fst ps' = map fst ps
     \<and> (\<forall>k. k \<noteq> ''fetchResponses'' \<longrightarrow> map_of ps' k = map_of ps k)
     \<and> (map_of ps' ''fetchResponses'' = map_of ps ''fetchResponses''
          \<or> (\<exists>v. truthy (js_get (JObj ps) ''fetchResponses'')
               \<and> try_fetchResponses rt (js_get (JObj ps) ''fetchResponses'') = Some v
               \<and> map_of ps' ''fetchResponses'' = Some v))"
  using decompress_fetchResponses_cases [of rt "JObj ps"]
  by (auto simp add: assign_map_of assign_keys_old)

lemma decompress_non_object:
  "\<forall>ps. r \<noteq> JObj ps \<Longrightarrow> decompress_fetchResponses rt (decompress_html rt r) = r"
  by (cases r) (simp_all add: decompress_html_def decompress_fetchResponses_def)

lemma decode_obj:
  "\<exists>ps'. decompress_fetchResponses rt (decompress_html rt (JObj ps)) = JObj ps'
     \<and> map fst ps' = map fst ps
     \<and> (\<forall>k. k \<noteq> ''html'' \<and> k \<noteq> ''fetchResponses'' \<longrightarrow> map_of ps' k = map_of ps k)
     \<and> (map_of ps' ''html'' = map_of ps ''html''
          \<or> (\<exists>v. truthy (js_get (JObj ps) ''html'')
               \<and> try_html rt (js_get (JObj ps) ''html'') = Some v
               \<and> map_of ps' ''html'' = Some v))
     \<and> (map_of ps' ''fetchResponses'' = map_of ps ''fetchResponses''
          \<or> (\<exists>v. truthy (js_get (JObj ps) ''fetchResponses'')
               \<and> try_fetchResponses rt (js_get (JObj ps) ''fetchResponses'') = Some v
               \<and> map_of ps' ''fetchResponses'' = Some v))"
proof -
  obtain ps1 where 1: "decompress_html rt (JObj ps) = JObj ps1" "map fst ps1 = map fst ps"
    "\<forall>k. k \<noteq> ''html'' \<longrightarrow> map_of ps1 k = map_of ps k"
    "map_of ps1 ''html'' = map_of ps ''html''
          \<or> (\<exists>v. truthy (js_get (JObj ps) ''html'')
               \<and> try_html rt (js_get (JObj ps) ''html'') = Some v
               \<and> map_of ps1 ''html'' = Some v)"
    using decompress_html_obj [of rt ps] by blast
  obtain ps2 where 2: "decompress_fetchResponses rt (JObj ps1) = JObj ps2"
    "map fst ps2 = map fst ps1"
    "\<forall>k. k \<noteq> ''fetchResponses'' \<longrightarrow> map_of ps2 k = map_of ps1 k"
    "map_of ps2 ''fetchResponses'' = map_of ps1 ''fetchResponses''
          \<or> (\<exists>v. truthy (js_get (JObj ps1) ''fetchResponses'')
               \<and> try_fetchResponses rt (js_get (JObj ps1) ''fetchResponses'') = Some v
               \<and> map_of ps2 ''fetchResponses'' = Some v)"
    using decompress_fetchResponses_obj [of rt ps1] by blast
  have same: "map_of ps1 ''fetchResponses'' = map_of ps ''fetchResponses''"
    using 1(3) by simp
  then have get: "js_get (JObj ps1) ''fetchResponses'' = js_get (JObj ps) ''fetchResponses''"
    by simp
  have h: "map_of ps2 ''html'' = map_of ps1 ''html''" using 2(3) by simp
  show ?thesis
  proof (intro exI [of _ ps2] conjI)
    show "decompress_fetchResponses rt (decompress_html rt (JObj ps)) = JObj ps2"
      using 1(1) 2(1) by simp
    show "map fst ps2 = map fst ps" using 1(2) 2(2) by simp
    show "\<forall>k. k \<noteq> ''html'' \<and> k \<noteq> ''fetchResponses'' \<longrightarrow> map_of ps2 k = map_of ps k"
      using 1(3) 2(3) by simp
    show "map_of ps2 ''html'' = map_of ps ''html''
          \<or> (\<exists>v. truthy (js_get (JObj ps) ''html'')
               \<and> try_html rt (js_get (JObj ps) ''html'') = Some v
               \<and> map_of ps2 ''html'' = Some v)"
      using 1(4) h by simp
    show "map_of ps2 ''fetchResponses'' = map_of ps ''fetchResponses''
          \<or> (\<exists>v. truthy (js_get (JObj ps) ''fetchResponses'')
               \<and> try_fetchResponses rt (js_get (JObj ps) ''fetchResponses'') = Some v
               \<and> map_of ps2 ''fetchResponses'' = Some v)"
      using 2(4) unfolding get same by simp
  qed
qed

lemma getRender_snd_ok:
  "get_renders w rid n = OkJson body \<Longrightarrow> \<not> nullish body \<Longrightarrow>
   snd (getRender rt w c rid n) = Inr (decompress_fetchResponses rt (decompress_html rt body))"
  by (simp add: getRender_def)

lemma getRender_snd_Inr:
  "snd (getRender rt w c rid n) = Inr result \<Longrightarrow>
   \<exists>body. get_renders w rid n = OkJson body \<and> \<not> nullish body
     \<and> result = decompress_fetchResponses rt (decompress_html rt body)"
  by (auto simp add: getRender_def split: reply.splits if_splits)

lemma wire_truthy: "decodes rt en \<Longrightarrow> truthy (wire en s)"
  by (simp add: decodes_def wire_def)

lemma try_html_wire: "decodes rt en \<Longrightarrow> try_html rt (wire en s) = Some (JStr s)"
  by (simp add: decodes_def wire_def try_html_def)

lemma try_fetchResponses_wire:
  "decodes rt en \<Longrightarrow> try_fetchResponses rt (wire en j) = json_parse rt j"
  by (simp add: decodes_def wire_def try_fetchResponses_def)


lemma render_null_response:
  assumes "snd (createRender w c url opts) = Inr response" and "nullish response"
  shows "render rt w c url opts cb = (fst (createRender w c url opts), Inl TypeError)"
  using assms by (cases "createRender w c url opts") (simp add: render_def)


lemma render_polls:
  assumes "snd (createRender w c url opts) = Inr response" and "\<not> nullish response"
    and "emit w cb c 0 (started_event (js_get response ''renderId'')) = (sx, t1, c1, None)"
  shows "render rt w c url opts cb =
           (fst (createRender w c url opts) @ sx @ [SetTimeout (JNum 2000)]
              @ fst (poll rt w cb c1 (js_get response ''renderId'') 0 t1),
            snd (poll rt w cb c1 (js_get response ''renderId'') 0 t1))"
  using assms
  by (cases "createRender w c url opts") (simp add: render_def split: prod.splits)

lemma render_polls_quiet:
  assumes "snd (createRender w c url opts) = Inr response" and "\<not> nullish response"
    and "returns_normally cb"
  shows "\<exists>c1 t1. render rt w c url opts cb =
           (fst (createRender w c url opts)
              @ started_part w cb c (js_get response ''renderId'')
              @ [SetTimeout (JNum 2000)]
              @ fst (poll rt w cb c1 (js_get response ''renderId'') 0 t1),
            snd (poll rt w cb c1 (js_get response ''renderId'') 0 t1))"
proof -
  note e = emit_quiet [OF assms(3), of w c 0 "started_event (js_get response ''renderId'')"]
  from render_polls [OF assms(1,2) e, of rt] show ?thesis
    by (cases cb) auto
qed

lemma started_summary [simp]:
  "event_summary (started_event rid ts) = (JStr ''started'', JUndefined)"
  by (simp add: event_summary_def event_type_def event_attempt_def started_event_def)

lemma started_not_polling [simp]:
  "event_type (started_event rid ts) \<noteq> JStr ''polling''"
  by (simp add: event_type_def started_event_def)

lemma started_part_quiet [simp]:
  "actions (started_part w cb c rid) = []"
  "fetch_count (started_part w cb c rid) = 0"
  "polling_events (started_part w cb c rid) = []"
  by (cases cb; simp add: polling_events_def)+

lemma byte_of_char_of_byte: "word_of_nat (unat (x::byte) mod 256) = x"
proof -
  have "unat x < 256" using unsigned_less [of x, where ?'a = nat] by simp
  then show ?thesis by simp
qed

lemma char_of_byte_of_char: "char_of (unat (word_of_nat (of_char c) :: byte)) = c"
  by (simp add: unat_of_nat)

lemma example_decodes: "decodes example_runtime example_encoder"
  by (simp add: decodes_def example_runtime_def example_encoder_def o_def
        byte_of_char_of_byte char_of_byte_of_char)

section \<open>Order of the progress events\<close>



section \<open>Timeout after 60 attempts\<close>

text \<open>
  \<^bold>\<open>C2\<close> (timeout) does not hold for every callback. Here the server answers processing
  for ever and the callback throws when it is handed the \<^verbatim>\<open>polling\<close> event of attempt 60.
  All 60 status requests are made and none returns a terminal status, but the call ends
  with what the callback threw, not with the timeout error: an exception of the callback
  is not caught and ends the call.
\<close>

theorem render_timeout_counterexample:
  "snd (render example_runtime stuck_world example_client example_url example_options
          (Some (throws_at_attempt 60)))
     = Inl (Thrown (JStr ''boom''))
   \<and> fetch_count
       (fst (render example_runtime stuck_world example_client example_url example_options
               (Some (throws_at_attempt 60))))
     = 60"
  by code_simp

text \<open>
  \<^bold>\<open>C2\<close>, for a call without a callback or with a callback that returns from every call:
  when the job was submitted and each of the 60 status requests returns a status that
  is neither \<^verbatim>\<open>completed\<close> nor \<^verbatim>\<open>failed\<close>, \<^verbatim>\<open>render\<close> makes exactly 60 status requests,
  emits exactly 60 \<^verbatim>\<open>polling\<close> events if a callback was supplied, and throws the timeout
  error that names 60 attempts.
\<close>

theorem render_timeout:
  assumes "snd (createRender w c url options) = Inr response" and "\<not> nullish response"
    and "\<forall>n<maxAttempts. \<exists>result.
           snd (getRender rt w c (js_get response ''renderId'') n) = Inr result
           \<and> non_terminal result"
    and "returns_normally onProgress"
  shows "snd (render rt w c url options onProgress) = Inl (RenderTimeout 60)
       \<and> fetch_count (fst (render rt w c url options onProgress)) = 60
       \<and> length (polling_events (fst (render rt w c url options onProgress)))
           = (if onProgress = None then 0 else 60)"
proof -
  let ?rid = "js_get response ''renderId''"
  from render_polls_quiet [OF assms(1,2,4), of rt] obtain c1 t1 where
    r: "render rt w c url options onProgress =
           (fst (createRender w c url options) @ started_part w onProgress c ?rid
              @ [SetTimeout (JNum 2000)] @ fst (poll rt w onProgress c1 ?rid 0 t1),
            snd (poll rt w onProgress c1 ?rid 0 t1))"
    by blast
  have "\<forall>n. 0 \<le> n \<and> n < maxAttempts \<longrightarrow> (\<exists>result.
           snd (getRender rt w c ?rid n) = Inr result \<and> non_terminal result)"
    using assms(3) by simp
  note p = poll_exhausts [OF assms(4) this, of c1 t1]
  show ?thesis unfolding r using p
    by (cases onProgress) (simp_all add: polling_events_def maxAttempts_def)
qed

text \<open>The server that answers processing for ever, with a callback that only returns.\<close>

theorem render_timeout_witness:
  "snd (createRender stuck_world example_client example_url example_options) = Inr (JObj [(''renderId'', JStr ''r1'')])
   \<and> returns_normally (Some quiet)
   \<and> snd (render example_runtime stuck_world example_client example_url example_options (Some quiet))
       = Inl (RenderTimeout 60)
   \<and> fetch_count (fst (render example_runtime stuck_world example_client example_url example_options (Some quiet)))
       = 60
   \<and> length (polling_events
               (fst (render example_runtime stuck_world example_client example_url example_options (Some quiet))))
       = 60"
proof -
  let ?response = "JObj [(''renderId'', JStr ''r1'')]"
  have 1: "snd (createRender stuck_world example_client example_url example_options) = Inr ?response"
    by code_simp
  have 2: "\<not> nullish ?response" by (simp add: nullish_def)
  have 3: "\<forall>n<maxAttempts. \<exists>result.
             snd (getRender example_runtime stuck_world example_client (js_get ?response ''renderId'') n)
               = Inr result \<and> non_terminal result"
    by (simp add: getRender_def stuck_world_def processing_def nullish_def non_terminal_def
          decompress_html_def decompress_fetchResponses_def)
  have 4: "returns_normally (Some quiet)" by (simp add: quiet_def)
  from render_timeout [OF 1 2 3 4] 1 4 show ?thesis by simp
qed

section \<open>Decoding failures\<close>

text \<open>
  \<^bold>\<open>C3\<close> (decoding failures are absorbed). When the server's answer to a status request
  is an object, \<^verbatim>\<open>getRender\<close> returns an object and raises no error, whatever the decoding
  steps do. For each of \<^verbatim>\<open>html\<close> and \<^verbatim>\<open>fetchResponses\<close>: if the field is absent or falsy, or
  if a step of its decode chain fails (\<^verbatim>\<open>Buffer.from\<close>, \<^verbatim>\<open>gunzip\<close>, and for
  \<^verbatim>\<open>fetchResponses\<close> also \<^verbatim>\<open>JSON.parse\<close>), the returned object holds for that field exactly
  what came in: the same value, or still no such property.
\<close>

theorem getRender_decode_failure:
  assumes "get_renders w renderId n = OkJson (JObj ps)"
  shows "\<exists>ps'. snd (getRender rt w c renderId n) = Inr (JObj ps')
     \<and> (\<not> truthy (js_get (JObj ps) ''html'') \<or> html_chain_fails rt (js_get (JObj ps) ''html'')
          \<longrightarrow> map_of ps' ''html'' = map_of ps ''html'')
     \<and> (\<not> truthy (js_get (JObj ps) ''fetchResponses'')
          \<or> fetchResponses_chain_fails rt (js_get (JObj ps) ''fetchResponses'')
          \<longrightarrow> map_of ps' ''fetchResponses'' = map_of ps ''fetchResponses'')"
proof -
  have ok: "snd (getRender rt w c renderId n)
              = Inr (decompress_fetchResponses rt (decompress_html rt (JObj ps)))"
    using assms by (simp add: getRender_snd_ok nullish_def)
  from decode_obj [of rt ps] show ?thesis
    unfolding ok using try_html_fails [of rt] try_fetchResponses_fails [of rt]
    by fastforce
qed

text \<open>
  A body whose \<^verbatim>\<open>html\<close> and \<^verbatim>\<open>fetchResponses\<close> are plain text and whose \<^verbatim>\<open>error\<close> is null
  comes back unchanged.
\<close>

theorem getRender_decode_failure_witness:
  "get_renders plain_world (JStr ''r1'') 0 = OkJson plain
   \<and> html_chain_fails example_runtime (js_get plain ''html'')
   \<and> fetchResponses_chain_fails example_runtime (js_get plain ''fetchResponses'')
   \<and> \<not> truthy (js_get plain ''error'')
   \<and> snd (getRender example_runtime plain_world example_client (JStr ''r1'') 0) = Inr plain"
proof -
  let ?ps = "[(''status'', JStr ''completed''), (''html'', JStr ''<p>plain</p>''),
              (''fetchResponses'', JStr ''not json''), (''error'', JNull)]"
  have 1: "get_renders plain_world (JStr ''r1'') 0 = OkJson (JObj ?ps)"
    by (simp add: plain_world_def plain_def)
  have 2: "html_chain_fails example_runtime (js_get (JObj ?ps) ''html'')"
    by (simp add: html_chain_fails_def example_runtime_def)
  have 3: "fetchResponses_chain_fails example_runtime (js_get (JObj ?ps) ''fetchResponses'')"
    by (simp add: fetchResponses_chain_fails_def example_runtime_def)
  have 4: "snd (getRender example_runtime plain_world example_client (JStr ''r1'') 0) = Inr plain"
    by code_simp
  from getRender_decode_failure [OF 1, of example_runtime] 1 2 3 4 show ?thesis
    by (simp add: plain_def)
qed

section \<open>Decoding round trip\<close>

text \<open>
  \<^bold>\<open>C4\<close> (round trip). Let the runtime's \<^verbatim>\<open>Buffer.from\<close>, \<^verbatim>\<open>gunzip\<close> and \<^verbatim>\<open>toString\<close> undo
  the server's base64, gzip and UTF-8 encoding. If the \<^verbatim>\<open>html\<close> field of the answer is
  base64(gzip(utf8(\<open>s\<close>))), the result of \<^verbatim>\<open>getRender\<close> has \<^verbatim>\<open>html\<close> equal to \<open>s\<close>; if
  \<^verbatim>\<open>fetchResponses\<close> is base64(gzip(utf8(\<open>j\<close>))) and \<open>j\<close> parses as JSON to \<open>v\<close>, the
  result has \<^verbatim>\<open>fetchResponses\<close> equal to \<open>v\<close>.
\<close>

theorem getRender_round_trip:
  assumes "decodes rt en" and "get_renders w renderId n = OkJson (JObj ps)"
  shows "\<exists>result. snd (getRender rt w c renderId n) = Inr result
     \<and> (map_of ps ''html'' = Some (wire en s) \<longrightarrow> js_get result ''html'' = JStr s)
     \<and> (map_of ps ''fetchResponses'' = Some (wire en j) \<and> json_parse rt j = Some v
          \<longrightarrow> js_get result ''fetchResponses'' = v)"
proof -
  let ?r1 = "decompress_html rt (JObj ps)"
  let ?r2 = "decompress_fetchResponses rt ?r1"
  have ok: "snd (getRender rt w c renderId n) = Inr ?r2"
    using assms(2) by (simp add: getRender_snd_ok nullish_def)
  have html: "js_get ?r2 ''html'' = JStr s" if "map_of ps ''html'' = Some (wire en s)"
  proof -
    have "js_get (JObj ps) ''html'' = wire en s" using that by simp
    then have "js_get ?r1 ''html'' = JStr s"
      using js_get_decompress_html_same [of "JObj ps" rt "JStr s"]
        wire_truthy [OF assms(1)] try_html_wire [OF assms(1)] by simp
    then show ?thesis by (simp add: js_get_decompress_fetchResponses_other)
  qed
  have fr: "js_get ?r2 ''fetchResponses'' = v"
    if "map_of ps ''fetchResponses'' = Some (wire en j)" "json_parse rt j = Some v"
  proof -
    have "js_get ?r1 ''fetchResponses'' = wire en j"
      using that(1) by (simp add: js_get_decompress_html_other)
    then show ?thesis
      using js_get_decompress_fetchResponses_same [of ?r1 rt v]
        wire_truthy [OF assms(1)] try_fetchResponses_wire [OF assms(1)] that(2) by simp
  qed
  show ?thesis unfolding ok using html fr by blast
qed

text \<open>
  With the stand-in codecs, an \<^verbatim>\<open>html\<close> field that encodes \<^verbatim>\<open><html></html>\<close> decodes to
  exactly that text, and a \<^verbatim>\<open>fetchResponses\<close> field that encodes \<^verbatim>\<open>[]\<close> to the empty array.
\<close>

theorem getRender_round_trip_witness:
  "decodes example_runtime example_encoder
   \<and> get_renders scenario_world (JStr ''r1'') 2 = OkJson completed
   \<and> js_get completed ''html'' = wire example_encoder ''<html></html>''
   \<and> js_get completed ''fetchResponses'' = wire example_encoder ''[]''
   \<and> json_parse example_runtime ''[]'' = Some (JArr [])
   \<and> (\<exists>result. snd (getRender example_runtime scenario_world example_client (JStr ''r1'') 2) = Inr result
         \<and> js_get result ''html'' = JStr ''<html></html>''
         \<and> js_get result ''fetchResponses'' = JArr [])"
proof -
  let ?ps = "[(''status'', JStr ''completed''),
              (''html'', wire example_encoder ''<html></html>''),
              (''fetchResponses'', wire example_encoder ''[]''),
              (''loadStrategy'', JStr ''default'')]"
  have 1: "get_renders scenario_world (JStr ''r1'') 2 = OkJson (JObj ?ps)"
    by (simp add: scenario_world_def completed_def)
  have 2: "map_of ?ps ''html'' = Some (wire example_encoder ''<html></html>'')" by simp
  have 3: "map_of ?ps ''fetchResponses'' = Some (wire example_encoder ''[]'')" by simp
  have 4: "json_parse example_runtime ''[]'' = Some (JArr [])"
    by (simp add: example_runtime_def)
  from getRender_round_trip [OF example_decodes 1, where s = "''<html></html>''" and j = "''[]''"
      and v = "JArr []"]
    example_decodes 1 2 3 4
  show ?thesis by (simp add: completed_def)
qed

section \<open>Failed renders\<close>

text \<open>
  \<^bold>\<open>C5\<close> (failed render) does not hold for every callback. Here the first status request
  returns \<^verbatim>\<open>failed\<close> with the error ``blocked'' and the callback throws when it is handed
  the \<^verbatim>\<open>failed\<close> event. The error that leaves \<^verbatim>\<open>render\<close> is what the callback threw; it
  does not carry the server's message.
\<close>

theorem render_failed_counterexample:
  "snd (getRender example_runtime blocked_world example_client (JStr ''r1'') 0) = Inr blocked
   \<and> js_get blocked ''status'' = JStr ''failed''
   \<and> js_get blocked ''error'' = JStr ''blocked''
   \<and> snd (render example_runtime blocked_world example_client example_url example_options
            (Some (throws_on ''failed'')))
       = Inl (Thrown (JStr ''boom''))"
  by code_simp

text \<open>
  \<^bold>\<open>C5\<close>, for a call without a callback or with a callback that returns from every call:
  if a status request made by the call returns the status \<^verbatim>\<open>failed\<close>, the call throws the
  error for a failed render, which carries the server's \<^verbatim>\<open>error\<close> value when that is truthy
  and the text ``Unknown error'' when it is absent or falsy; and if a callback was
  supplied, the last event emitted before the throw is the \<^verbatim>\<open>failed\<close> event.
\<close>

theorem render_failed:
  assumes "render rt w c url options onProgress = (tr, out)"
    and "returns_normally onProgress"
    and "snd (createRender w c url options) = Inr response"
    and "n < fetch_count tr"
    and "snd (getRender rt w c (js_get response ''renderId'') n) = Inr result"
    and "js_get result ''status'' = JStr ''failed''"
  shows "out = Inl (RenderFailed (if truthy (js_get result ''error'')
                                  then js_get result ''error'' else JStr ''Unknown error''))
       \<and> (onProgress \<noteq> None \<longrightarrow>
            events_of tr \<noteq> []
            \<and> (\<exists>ts. last (events_of tr)
                     = failed_event (js_get response ''renderId'') result ts))"
proof -
  let ?rid = "js_get response ''renderId''"
  have nn: "\<not> nullish response"
    using render_null_response [OF assms(3), of rt onProgress] assms(1,4) by auto
  from render_polls_quiet [OF assms(3) nn assms(2), of rt] assms(1) obtain c1 t1 rest where
    p: "poll rt w onProgress c1 ?rid 0 t1 = (rest, out)"
    and tr: "tr = fst (createRender w c url options) @ started_part w onProgress c ?rid
                    @ [SetTimeout (JNum 2000)] @ rest"
    by (metis prod.collapse prod.inject)
  have fc: "fetch_count tr = fetch_count rest"
    by (simp add: tr)
  have "n < 0 + fetch_count rest" using assms(4) fc by simp
  from poll_failed [OF p assms(2) _ this assms(5,6)]
  have out: "out = Inl (RenderFailed (js_or (js_get result ''error'') (JStr ''Unknown error'')))"
    and ev: "onProgress \<noteq> None \<longrightarrow>
      events_of rest \<noteq> [] \<and> (\<exists>ts. last (events_of rest) = failed_event ?rid result ts)"
    by simp_all
  show ?thesis using out ev
    by (cases onProgress) (auto simp add: tr js_or_def)
qed

text \<open>The failure scenario with a callback that only returns: the error carries ``blocked''.\<close>

theorem render_failed_witness:
  "returns_normally (Some quiet)
   \<and> snd (createRender blocked_world example_client example_url example_options)
       = Inr (JObj [(''renderId'', JStr ''r1'')])
   \<and> 0 < fetch_count
           (fst (render example_runtime blocked_world example_client example_url example_options (Some quiet)))
   \<and> snd (getRender example_runtime blocked_world example_client (JStr ''r1'') 0) = Inr blocked
   \<and> js_get blocked ''status'' = JStr ''failed''
   \<and> snd (render example_runtime blocked_world example_client example_url example_options (Some quiet))
       = Inl (RenderFailed (JStr ''blocked''))
   \<and> (\<exists>ts. last (events_of
                    (fst (render example_runtime blocked_world example_client example_url example_options
                            (Some quiet))))
             = failed_event (JStr ''r1'') blocked ts)"
proof -
  let ?run = "render example_runtime blocked_world example_client example_url example_options (Some quiet)"
  let ?response = "JObj [(''renderId'', JStr ''r1'')]"
  have 1: "?run = (fst ?run, snd ?run)" by simp
  have 2: "returns_normally (Some quiet)" by (simp add: quiet_def)
  have 3: "snd (createRender blocked_world example_client example_url example_options) = Inr ?response"
    by code_simp
  have 4: "0 < fetch_count (fst ?run)" by code_simp
  have 5: "snd (getRender example_runtime blocked_world example_client (js_get ?response ''renderId'') 0)
             = Inr blocked"
    by code_simp
  have 6: "js_get blocked ''status'' = JStr ''failed''" by (simp add: blocked_def)
  have 7: "js_get blocked ''error'' = JStr ''blocked''" by (simp add: blocked_def)
  from render_failed [OF 1 2 3 4 5 6] 2 3 4 5 6 show ?thesis
    unfolding 7 by simp
qed

section \<open>Delays\<close>




section \<open>Payload omission\<close>

text \<open>
  \<^bold>\<open>C7\<close> (payload omission). For every options value that \<^verbatim>\<open>createRender\<close> accepts, the
  payload it submits has exactly these keys, in this order: \<^verbatim>\<open>url\<close>, then those of the ten
  option keys that the options hold a value for (reading the key gives something other
  than \<^verbatim>\<open>undefined\<close>). \<^verbatim>\<open>url\<close> maps to the url and each such key to the value the options
  hold for it, so a key that is not set is absent, not null and not a default, and each
  key depends on its own option only.
\<close>

theorem createRender_payload:
  assumes "options \<noteq> JNull"
  shows "\<exists>payload. fst (createRender w c url options) = [CreateRender c payload]
           \<and> map fst payload = ''url'' # filter (\<lambda>k. js_get options k \<noteq> JUndefined) option_keys
           \<and> map_of payload ''url'' = Some url
           \<and> (\<forall>k \<in> set option_keys.
                 js_get options k \<noteq> JUndefined \<longrightarrow> map_of payload k = Some (js_get options k))"
proof -
  let ?opts = "default_to (JObj []) options"
  let ?p = "build_payload url ?opts"
  have 1: "fst (createRender w c url options) = [CreateRender c ?p]"
    using assms by (simp add: createRender_fst)
  have 2: "map fst ?p = ''url'' # filter (\<lambda>k. js_get options k \<noteq> JUndefined) option_keys"
    using fold_copy_keys [OF distinct_option_keys, of "[(''url'', url)]" ?opts] url_not_option_key
    by (simp add: build_payload_fold)
  have 3: "map_of ?p ''url'' = Some url"
    using fold_copy_map_of [OF distinct_option_keys, of ?opts "[(''url'', url)]" "''url''"]
      url_not_option_key
    by (simp add: build_payload_fold)
  have 4: "\<forall>k \<in> set option_keys.
             js_get options k \<noteq> JUndefined \<longrightarrow> map_of ?p k = Some (js_get options k)"
    using fold_copy_map_of [OF distinct_option_keys, of ?opts "[(''url'', url)]"]
    by (simp add: build_payload_fold)
  show ?thesis by (rule exI [of _ ?p]) (intro conjI 1 2 3 4)
qed

text \<open>Options that set \<^verbatim>\<open>countryCode\<close> and \<^verbatim>\<open>includeScreenshot\<close> only.\<close>

theorem createRender_payload_witness:
  "example_options \<noteq> JNull
   \<and> filter (\<lambda>k. js_get example_options k \<noteq> JUndefined) option_keys
       = [''countryCode'', ''includeScreenshot'']
   \<and> (\<exists>payload. fst (createRender scenario_world example_client example_url example_options)
                    = [CreateRender example_client payload]
         \<and> map fst payload = [''url'', ''countryCode'', ''includeScreenshot'']
         \<and> map_of payload ''url'' = Some example_url
         \<and> map_of payload ''countryCode'' = Some (JStr ''US'')
         \<and> map_of payload ''includeScreenshot'' = Some (JBool True))"
proof -
  have 1: "example_options \<noteq> JNull" by (simp add: example_options_def)
  have 2: "filter (\<lambda>k. js_get example_options k \<noteq> JUndefined) option_keys
       = [''countryCode'', ''includeScreenshot'']"
    by (simp add: example_options_def option_keys_def)
  have 3: "''countryCode'' \<in> set option_keys" "''includeScreenshot'' \<in> set option_keys"
    by (simp_all add: option_keys_def)
  have 4: "js_get example_options ''countryCode'' = JStr ''US''"
    "js_get example_options ''includeScreenshot'' = JBool True"
    by (simp_all add: example_options_def)
  from createRender_payload [OF 1, of scenario_world example_client example_url] obtain payload where
    p: "fst (createRender scenario_world example_client example_url example_options) = [CreateRender example_client payload]
      \<and> map fst payload
          = ''url'' # filter (\<lambda>k. js_get example_options k \<noteq> JUndefined) option_keys
      \<and> map_of payload ''url'' = Some example_url
      \<and> (\<forall>k \<in> set option_keys. js_get example_options k \<noteq> JUndefined
           \<longrightarrow> map_of payload k = Some (js_get example_options k))"
    by (rule exE)
  from p 3 4 have "map_of payload ''countryCode'' = Some (JStr ''US'')"
    "map_of payload ''includeScreenshot'' = Some (JBool True)"
    by auto
  with p 1 2 show ?thesis by auto
qed

section \<open>Progress callbacks and control flow\<close>




section \<open>Shape of the text wait action\<close>

text \<open>
  \<^bold>\<open>C9\<close> (shape of the text wait action) does not hold for every supplied selector: the
  empty string is supplied here, and the descriptor has no \<^verbatim>\<open>selector\<close> key.
\<close>

theorem waitForText_counterexample:
  "''selector'' \<notin> set (own_keys (waitForText (JStr ''Hello'') (JStr '''') JUndefined))"
  by (simp add: waitForText_def default_to_def Let_def)

text \<open>
  \<^bold>\<open>C9\<close>, with the selector tested for truthiness as the code does: the descriptor
  returned by \<^verbatim>\<open>waitForText\<close> has the keys \<^verbatim>\<open>type\<close>, \<^verbatim>\<open>text\<close>, \<^verbatim>\<open>timeout\<close>, and after them
  \<^verbatim>\<open>selector\<close> exactly when the selector is truthy; the type is \<^verbatim>\<open>'text'\<close>, the text is the
  given one, the timeout is the given one and 30000 when none is given; a truthy selector
  is stored under \<^verbatim>\<open>selector\<close>, and with no selector supplied the key is absent.
\<close>

theorem waitForText_shape:
  "own_keys (waitForText text selector timeout)
     = (if truthy selector then [''type'', ''text'', ''timeout'', ''selector'']
        else [''type'', ''text'', ''timeout''])
   \<and> js_get (waitForText text selector timeout) ''type'' = JStr ''text''
   \<and> js_get (waitForText text selector timeout) ''text'' = text
   \<and> js_get (waitForText text selector timeout) ''timeout''
       = (if timeout = JUndefined then JNum 30000 else timeout)
   \<and> (truthy selector \<longrightarrow> js_get (waitForText text selector timeout) ''selector'' = selector)
   \<and> (selector = JUndefined \<longrightarrow> ''selector'' \<notin> set (own_keys (waitForText text selector timeout)))"
  by (simp add: waitForText_def default_to_def Let_def)

text \<open>\<^verbatim>\<open>waitForText('Hello', '.sel')\<close> and \<^verbatim>\<open>waitForText('Hello')\<close>.\<close>

theorem waitForText_shape_witness:
  "truthy (JStr ''.sel'')
   \<and> js_get (waitForText (JStr ''Hello'') (JStr ''.sel'') JUndefined) ''selector'' = JStr ''.sel''
   \<and> ''selector'' \<notin> set (own_keys (waitForText (JStr ''Hello'') JUndefined JUndefined))
   \<and> js_get (waitForText (JStr ''Hello'') JUndefined JUndefined) ''timeout'' = JNum 30000"
proof -
  have 1: "truthy (JStr ''.sel'')" by simp
  from waitForText_shape [of "JStr ''Hello''" "JStr ''.sel''" JUndefined]
       waitForText_shape [of "JStr ''Hello''" JUndefined JUndefined] 1
  show ?thesis by simp
qed

section \<open>Frame of the decoder\<close>

text \<open>
  \<^bold>\<open>C10\<close> (frame). Whenever \<^verbatim>\<open>getRender\<close> returns a result, the server answered with a
  JSON body, and the result is that body except for \<^verbatim>\<open>html\<close> and \<^verbatim>\<open>fetchResponses\<close>: a body
  that is not an object is returned as it is; for an object the result is an object with
  the same keys in the same order and the same value under every key other than those
  two, and each of the two holds either what came in or what its decode chain produced.
\<close>

theorem getRender_frame:
  assumes "snd (getRender rt w c renderId n) = Inr result"
  shows "\<exists>body. get_renders w renderId n = OkJson body
     \<and> ((\<forall>ps. body \<noteq> JObj ps) \<longrightarrow> result = body)
     \<and> (\<forall>ps. body = JObj ps \<longrightarrow>
           (\<exists>ps'. result = JObj ps' \<and> map fst ps' = map fst ps
              \<and> (\<forall>k. k \<noteq> ''html'' \<and> k \<noteq> ''fetchResponses'' \<longrightarrow> map_of ps' k = map_of ps k)
              \<and> (map_of ps' ''html'' = map_of ps ''html''
                   \<or> try_html rt (js_get body ''html'') = map_of ps' ''html'')
              \<and> (map_of ps' ''fetchResponses'' = map_of ps ''fetchResponses''
                   \<or> try_fetchResponses rt (js_get body ''fetchResponses'')
                       = map_of ps' ''fetchResponses'')))"
proof -
  from getRender_snd_Inr [OF assms] obtain body where
    b: "get_renders w renderId n = OkJson body"
    and r: "result = decompress_fetchResponses rt (decompress_html rt body)"
    by blast
  have 1: "(\<forall>ps. body \<noteq> JObj ps) \<longrightarrow> result = body"
    using r decompress_non_object [of body rt] by simp
  have 2: "\<forall>ps. body = JObj ps \<longrightarrow>
           (\<exists>ps'. result = JObj ps' \<and> map fst ps' = map fst ps
              \<and> (\<forall>k. k \<noteq> ''html'' \<and> k \<noteq> ''fetchResponses'' \<longrightarrow> map_of ps' k = map_of ps k)
              \<and> (map_of ps' ''html'' = map_of ps ''html''
                   \<or> try_html rt (js_get body ''html'') = map_of ps' ''html'')
              \<and> (map_of ps' ''fetchResponses'' = map_of ps ''fetchResponses''
                   \<or> try_fetchResponses rt (js_get body ''fetchResponses'')
                       = map_of ps' ''fetchResponses''))"
  proof (intro allI impI)
    fix ps assume "body = JObj ps"
    with decode_obj [of rt ps] r show "\<exists>ps'. result = JObj ps' \<and> map fst ps' = map fst ps
              \<and> (\<forall>k. k \<noteq> ''html'' \<and> k \<noteq> ''fetchResponses'' \<longrightarrow> map_of ps' k = map_of ps k)
              \<and> (map_of ps' ''html'' = map_of ps ''html''
                   \<or> try_html rt (js_get body ''html'') = map_of ps' ''html'')
              \<and> (map_of ps' ''fetchResponses'' = map_of ps ''fetchResponses''
                   \<or> try_fetchResponses rt (js_get body ''fetchResponses'')
                       = map_of ps' ''fetchResponses'')"
      by fastforce
  qed
  from b 1 2 show ?thesis by blast
qed

text \<open>The completed answer of the scenario: \<^verbatim>\<open>status\<close> and \<^verbatim>\<open>loadStrategy\<close> are untouched.\<close>

theorem getRender_frame_witness:
  "snd (getRender example_runtime scenario_world example_client (JStr ''r1'') 2)
     = Inr (JObj [(''status'', JStr ''completed''), (''html'', JStr ''<html></html>''),
                  (''fetchResponses'', JArr []), (''loadStrategy'', JStr ''default'')])
   \<and> get_renders scenario_world (JStr ''r1'') 2 = OkJson completed
   \<and> own_keys completed = [''status'', ''html'', ''fetchResponses'', ''loadStrategy'']
   \<and> js_get completed ''loadStrategy'' = JStr ''default''"
proof -
  have 1: "snd (getRender example_runtime scenario_world example_client (JStr ''r1'') 2)
     = Inr (JObj [(''status'', JStr ''completed''), (''html'', JStr ''<html></html>''),
                  (''fetchResponses'', JArr []), (''loadStrategy'', JStr ''default'')])"
    by code_simp
  have 2: "get_renders scenario_world (JStr ''r1'') 2 = OkJson completed"
    by (simp add: scenario_world_def)
  from getRender_frame [OF 1] 1 2 show ?thesis
    by (simp add: completed_def)
qed

end
